theory Spec2Isabelle
  imports Main
begin

section \<open>Python string primitives used by the two rules\<close>

text \<open>
  Text is modelled as \<^typ>\<open>string\<close>, a character being a code point below 256. \<open>is_space\<close>
  is Python's \<open>str.isspace\<close> on these code points, which is also what \<open>\s\<close> matches in
  \<open>re\<close>: TAB, LF, VT, FF, CR, FS, GS, RS, US, the blank, NEL (U+0085) and the no-break
  space (U+00A0).
\<close>

definition is_space :: "char \<Rightarrow> bool" where
  "is_space c \<longleftrightarrow>
     c = CHR 0x09 \<or> c = CHR 0x0A \<or> c = CHR 0x0B \<or> c = CHR 0x0C \<or> c = CHR 0x0D \<or>
     c = CHR 0x1C \<or> c = CHR 0x1D \<or> c = CHR 0x1E \<or> c = CHR 0x1F \<or> c = CHR '' '' \<or>
     c = CHR 0x85 \<or> c = CHR 0xA0"

definition is_upper :: "char \<Rightarrow> bool" where
  "is_upper c \<longleftrightarrow> c \<in> set ''ABCDEFGHIJKLMNOPQRSTUVWXYZ''"

definition lstrip :: "string \<Rightarrow> string" where
  "lstrip s = dropWhile is_space s"

definition rstrip :: "string \<Rightarrow> string" where
  "rstrip s = rev (dropWhile is_space (rev s))"

definition strip :: "string \<Rightarrow> string" where
  "strip s = lstrip (rstrip s)"

definition startswith :: "string \<Rightarrow> string \<Rightarrow> bool" where
  "startswith s p \<longleftrightarrow> take (length p) s = p"

definition endswith :: "string \<Rightarrow> string \<Rightarrow> bool" where
  "endswith s p \<longleftrightarrow> drop (length s - length p) s = p"

fun contains :: "string \<Rightarrow> string \<Rightarrow> bool" where
  "contains [] sub = (sub = [])"
| "contains (c # cs) sub = (startswith (c # cs) sub \<or> contains cs sub)"

definition count_char :: "char \<Rightarrow> string \<Rightarrow> int" where
  "count_char c s = int (length (filter (\<lambda>x. x = c) s))"

text \<open>\<open>content.split('\n')\<close>: always at least one piece.\<close>

fun split_lines :: "string \<Rightarrow> string list" where
  "split_lines [] = [[]]"
| "split_lines (c # cs) =
     (if c = CHR 0x0A then [] # split_lines cs
      else (case split_lines cs of
              [] \<Rightarrow> [[c]]
            | l # ls \<Rightarrow> (c # l) # ls))"

text \<open>\<open>'\n'.join(lines)\<close>, used to write file contents line by line.\<close>

fun join_lines :: "string list \<Rightarrow> string" where
  "join_lines [] = []"
| "join_lines [l] = l"
| "join_lines (l # m # ls) = l @ CHR 0x0A # join_lines (m # ls)"

text \<open>Decimal rendering of a Python \<open>int\<close> inside an f-string.\<close>

fun str_nat :: "nat \<Rightarrow> string" where
  "str_nat n =
     (if n < 10 then [char_of (48 + n)]
      else str_nat (n div 10) @ [char_of (48 + n mod 10)])"

definition str_int :: "int \<Rightarrow> string" where
  "str_int i = (if i < 0 then CHR ''-'' # str_nat (nat (- i)) else str_nat (nat i))"

section \<open>ST.005: the indentation rule (rule\_005.py)\<close>

text \<open>
  \<open>re.search(r'<<-?([A-Z]+)\s*$', line)\<close>. At one position the pattern is deterministic:
  two \<open><\<close>, an optional \<open>-\<close>, the longest run of capitals (at least one), and then only
  white space up to the end. \<open>heredoc_search\<close> tries the positions from the left and returns
  group 1 of the first match.
\<close>

definition heredoc_match_here :: "string \<Rightarrow> string option" where
  "heredoc_match_here s =
     (if startswith s ''<<'' \<and> 2 \<le> length s then
        (let r = drop 2 s;
             r' = (if startswith r ''-'' \<and> r \<noteq> [] then drop 1 r else r);
             name = takeWhile is_upper r';
             rest = dropWhile is_upper r'
         in if name \<noteq> [] \<and> list_all is_space rest then Some name else None)
      else None)"

fun heredoc_search :: "string \<Rightarrow> string option" where
  "heredoc_search [] = None"
| "heredoc_search (c # cs) =
     (case heredoc_match_here (c # cs) of
        Some t \<Rightarrow> Some t
      | None \<Rightarrow> heredoc_search cs)"

text \<open>
  \<open>_check_heredoc_state\<close>: the pair is the dictionary's \<open>in_heredoc\<close> and \<open>terminator\<close>.
\<close>

definition check_heredoc_state :: "string \<Rightarrow> bool \<Rightarrow> string option \<Rightarrow> bool \<times> string option" where
  "check_heredoc_state line current_in_heredoc current_terminator =
     (if \<not> current_in_heredoc then
        (case heredoc_search line of
           Some t \<Rightarrow> (True, Some t)
         | None \<Rightarrow> (current_in_heredoc, current_terminator))
      else
        (case current_terminator of
           Some t \<Rightarrow>
             (if t \<noteq> [] \<and> strip line = t then (False, None)
              else (current_in_heredoc, current_terminator))
         | None \<Rightarrow> (current_in_heredoc, current_terminator)))"

text \<open>\<open>_get_indentation_level\<close>: the loop over the characters, \<open>-1\<close> on a tab.\<close>

fun leading_spaces_from :: "int \<Rightarrow> string \<Rightarrow> int" where
  "leading_spaces_from n [] = n"
| "leading_spaces_from n (c # cs) =
     (if c = CHR '' '' then leading_spaces_from (n + 1) cs
      else if c = CHR 0x09 then - 1
      else n)"

definition get_indentation_level :: "string \<Rightarrow> int" where
  "get_indentation_level line = leading_spaces_from 0 line"

definition starts_top_level_keyword :: "string \<Rightarrow> bool" where
  "starts_top_level_keyword lc \<longleftrightarrow>
     startswith lc ''resource '' \<or> startswith lc ''data '' \<or> startswith lc ''variable '' \<or>
     startswith lc ''output '' \<or> startswith lc ''locals '' \<or> startswith lc ''terraform '' \<or>
     startswith lc ''provider ''"

text \<open>
  The first test of \<open>_validate_line_indentation\<close>: a declaration line whose brace is not
  at its end and that holds no \<open>' = '\<close>.
\<close>

definition is_declaration_line :: "string \<Rightarrow> bool" where
  "is_declaration_line lc \<longleftrightarrow>
     starts_top_level_keyword lc \<and> CHR '' '' \<in> set lc \<and> \<not> endswith lc ''{'' \<and>
     \<not> contains lc '' = ''"

text \<open>The table for an odd indentation (lines 198-221).\<close>

definition odd_indent_expected :: "int \<Rightarrow> int" where
  "odd_indent_expected indent_level =
     (if indent_level = 1 then 2
      else if indent_level = 3 then 2
      else if indent_level = 5 then 6
      else if indent_level = 7 then 6
      else if indent_level = 9 then 8
      else indent_level - 1)"

text \<open>
  Lines 246-279: \<open>has_closing\<close> and \<open>has_opening\<close> after the two resets (braces or brackets
  balanced on the line, or an assignment, each with no unmatched closer).
\<close>

definition closers_cleared :: "string \<Rightarrow> bool" where
  "closers_cleared line_content \<longleftrightarrow>
     (let close_braces = count_char CHR ''}'' line_content;
          close_brackets = count_char CHR '']'' line_content;
          open_braces = count_char CHR ''{'' line_content;
          open_brackets = count_char CHR ''['' line_content;
          net_close_braces = close_braces - open_braces;
          net_close_brackets = close_brackets - open_brackets;
          brackets_balanced = (open_brackets = close_brackets \<and> open_brackets > 0);
          braces_balanced = (open_braces = close_braces \<and> open_braces > 0);
          is_parameter_assignment =
            (CHR ''='' \<in> set line_content \<and> \<not> startswith line_content ''#'')
      in ((brackets_balanced \<or> braces_balanced) \<and> net_close_braces \<le> 0 \<and>
          net_close_brackets \<le> 0) \<or>
         (is_parameter_assignment \<and> net_close_braces \<le> 0 \<and> net_close_brackets \<le> 0))"

definition has_closing :: "string \<Rightarrow> bool" where
  "has_closing line_content \<longleftrightarrow>
     (count_char CHR ''}'' line_content > 0 \<or> count_char CHR '']'' line_content > 0) \<and>
     \<not> closers_cleared line_content"

definition has_opening :: "string \<Rightarrow> bool" where
  "has_opening line_content \<longleftrightarrow>
     (count_char CHR ''{'' line_content > 0 \<or> count_char CHR ''['' line_content > 0) \<and>
     \<not> closers_cleared line_content"

text \<open>
  Lines 281-325: the indentation a line is held to by its nesting. \<open>brace_level\<close> and
  \<open>bracket_level\<close> are the levels after the line, \<open>current_nesting_level\<close> the level before.
\<close>

definition nesting_expected_indent :: "string \<Rightarrow> int \<Rightarrow> int \<Rightarrow> int \<Rightarrow> int" where
  "nesting_expected_indent line_content current_nesting_level brace_level bracket_level =
     (let close_braces = count_char CHR ''}'' line_content;
          close_brackets = count_char CHR '']'' line_content;
          open_braces = count_char CHR ''{'' line_content;
          open_brackets = count_char CHR ''['' line_content;
          net_close_braces = close_braces - open_braces;
          net_close_brackets = close_brackets - open_brackets;
          total_net_close = net_close_braces + net_close_brackets
      in if has_closing line_content \<and> (net_close_braces > 0 \<or> net_close_brackets > 0) then
           (if total_net_close = 0 \<and> has_opening line_content then
              (if close_brackets > 0 then
                 (brace_level + max 0 (bracket_level - close_brackets)) * 2
               else if close_braces > 0 then
                 (max 0 (brace_level - close_braces) + bracket_level) * 2
               else max 0 ((current_nesting_level - total_net_close) * 2))
            else max 0 ((current_nesting_level - total_net_close) * 2))
         else if has_closing line_content \<and> has_opening line_content then
           (if close_brackets > 0 then (brace_level + max 0 (bracket_level - close_brackets)) * 2
            else if close_braces > 0 then (max 0 (brace_level - close_braces) + bracket_level) * 2
            else current_nesting_level * 2)
         else current_nesting_level * 2)"

text \<open>Lines 225-234: an assignment at column 0 that does not start with a block keyword.\<close>

definition is_bare_assignment :: "string \<Rightarrow> int \<Rightarrow> bool \<Rightarrow> bool" where
  "is_bare_assignment line_content indent_level is_tfvars_file \<longleftrightarrow>
     indent_level = 0 \<and> CHR ''='' \<in> set line_content \<and> \<not> startswith line_content ''#'' \<and>
     \<not> is_tfvars_file \<and> \<not> starts_top_level_keyword line_content"

text \<open>
  \<open>_validate_line_indentation\<close>. The result is \<open>Some e\<close> when the function calls
  \<open>log_error_func\<close>, \<open>e\<close> being the expected indentation it puts into the message, and
  \<open>None\<close> when it reports nothing. The unused parameter \<open>lines\<close> is left out.
\<close>

definition validate_line_indentation ::
  "string \<Rightarrow> int \<Rightarrow> bool \<Rightarrow> int \<Rightarrow> int \<Rightarrow> int \<Rightarrow> int option" where
  "validate_line_indentation line_content indent_level is_tfvars_file current_nesting_level
       brace_level bracket_level =
     (if is_declaration_line line_content then
        (if indent_level > 0 then Some 0 else None)
      else if indent_level > 0 \<and> indent_level mod 2 \<noteq> 0 then
        Some (odd_indent_expected indent_level)
      else if is_bare_assignment line_content indent_level is_tfvars_file then
        Some 2
      else
        (let e0 = nesting_expected_indent line_content current_nesting_level brace_level
                    bracket_level;
             expected_indent =
               (if indent_level mod 2 \<noteq> 0 then
                  (if indent_level < e0 then indent_level + 1 else indent_level - 1)
                else e0)
         in if indent_level \<noteq> expected_indent then Some expected_indent else None))"

definition st005_message :: "int \<Rightarrow> int \<Rightarrow> string" where
  "st005_message indent_level expected_indent =
     ''Indentation level incorrect. Current indentation: '' @ str_int indent_level @
     '' spaces, Expected: '' @ str_int expected_indent @ '' spaces''"

text \<open>The loop state of \<open>check_st005_indentation_level\<close>.\<close>

record scan_state =
  in_heredoc :: bool
  heredoc_terminator :: "string option"
  brace_level :: int
  bracket_level :: int

definition initial_scan_state :: scan_state where
  "initial_scan_state =
     \<lparr>in_heredoc = False, heredoc_terminator = None, brace_level = 0, bracket_level = 0\<rparr>"

text \<open>
  One iteration of the loop (lines 106-152): the new state and, when the line is reported,
  the pair of its indentation and the expected one.
\<close>

definition st005_step :: "bool \<Rightarrow> scan_state \<Rightarrow> string \<Rightarrow> scan_state \<times> (int \<times> int) option" where
  "st005_step is_tfvars_file s line =
     (if strip line = [] then (s, None)
      else
        (let hs = check_heredoc_state line (in_heredoc s) (heredoc_terminator s);
             s1 = s\<lparr>in_heredoc := fst hs, heredoc_terminator := snd hs\<rparr>
         in if fst hs then (s1, None)
            else
              (let line_content = strip line
               in if startswith line_content ''#'' then (s1, None)
                  else
                    (let net_brace_change = count_char CHR ''{'' line - count_char CHR ''}'' line;
                         net_bracket_change = count_char CHR ''['' line - count_char CHR '']'' line;
                         current_nesting_level = brace_level s1 + bracket_level s1;
                         s2 = s1\<lparr>brace_level := max 0 (brace_level s1 + net_brace_change),
                                 bracket_level := max 0 (bracket_level s1 + net_bracket_change)\<rparr>;
                         indent_level = get_indentation_level line
                     in if indent_level = - 1 then (s2, None)
                        else
                          (case validate_line_indentation line_content indent_level
                                  is_tfvars_file current_nesting_level (brace_level s2)
                                  (bracket_level s2) of
                             None \<Rightarrow> (s2, None)
                           | Some e \<Rightarrow> (s2, Some (indent_level, e)))))))"

text \<open>
  The loop over \<open>enumerate(lines, 1)\<close>; the result lists the calls of \<open>log_error_func\<close> in
  order, each as (line number, message).
\<close>

fun st005_scan :: "bool \<Rightarrow> scan_state \<Rightarrow> nat \<Rightarrow> string list \<Rightarrow> (nat \<times> string) list" where
  "st005_scan is_tfvars_file s line_num [] = []"
| "st005_scan is_tfvars_file s line_num (line # rest) =
     (case snd (st005_step is_tfvars_file s line) of
        None \<Rightarrow> []
      | Some (i, e) \<Rightarrow> [(line_num, st005_message i e)]) @
     st005_scan is_tfvars_file (fst (st005_step is_tfvars_file s line)) (Suc line_num) rest"

definition check_st005_indentation_level :: "string \<Rightarrow> string \<Rightarrow> (nat \<times> string) list" where
  "check_st005_indentation_level file_path content =
     st005_scan (endswith file_path ''.tfvars'') initial_scan_state 1 (split_lines content)"

section \<open>ST.003: alignment inside one group (rule\_003.py)\<close>

text \<open>\<open>line.find('=')\<close>: the offset of the first occurrence, \<open>None\<close> for Python's \<open>-1\<close>.\<close>

fun str_find :: "char \<Rightarrow> string \<Rightarrow> nat option" where
  "str_find c [] = None"
| "str_find c (x # xs) =
     (if x = c then Some 0
      else (case str_find c xs of None \<Rightarrow> None | Some i \<Rightarrow> Some (Suc i)))"

text \<open>\<open>line.expandtabs(2)\<close>; the first argument is the current column modulo 2.\<close>

fun expandtabs_from :: "nat \<Rightarrow> string \<Rightarrow> string" where
  "expandtabs_from col [] = []"
| "expandtabs_from col (c # cs) =
     (if c = CHR 0x09 then replicate (2 - col mod 2) CHR '' '' @ expandtabs_from 0 cs
      else if c = CHR 0x0A \<or> c = CHR 0x0D then c # expandtabs_from 0 cs
      else c # expandtabs_from (Suc col) cs)"

definition expandtabs :: "string \<Rightarrow> string" where
  "expandtabs s = expandtabs_from 0 s"

text \<open>\<open>len(line) - len(line.lstrip())\<close>.\<close>

definition actual_indent :: "string \<Rightarrow> nat" where
  "actual_indent line = length line - length (lstrip line)"

text \<open>
  \<open>re.match(r'^\s*(["\']?)([^"\'=\s]+)\1\s*$', before_equals)\<close>, group 2. After the
  leading white space an opening quote is taken when there is one, the name is the longest
  run of characters that are no quote, no \<open>=\<close> and no white space, the same quote (or
  nothing) must follow, and only white space may follow that.
\<close>

definition is_name_char :: "char \<Rightarrow> bool" where
  "is_name_char c \<longleftrightarrow> c \<noteq> CHR 0x22 \<and> c \<noteq> CHR 0x27 \<and> c \<noteq> CHR ''='' \<and> \<not> is_space c"

definition param_name_match :: "string \<Rightarrow> string option" where
  "param_name_match before_equals =
     (let s1 = dropWhile is_space before_equals;
          quoted = (s1 \<noteq> [] \<and> (hd s1 = CHR 0x22 \<or> hd s1 = CHR 0x27));
          s2 = (if quoted then tl s1 else s1);
          name = takeWhile is_name_char s2;
          rest = dropWhile is_name_char s2
      in if name = [] then None
         else if quoted then
           (case rest of
              [] \<Rightarrow> None
            | c # rest' \<Rightarrow> if c = hd s1 \<and> list_all is_space rest' then Some name else None)
         else if list_all is_space rest then Some name else None)"

record param_entry =
  param_name :: string
  param_line :: string
  relative_line_idx :: nat
  equals_pos :: nat
  is_nested_block :: bool

text \<open>Lines 1624-1650: the entry a group line contributes to \<open>param_data\<close>, if any.\<close>

definition param_entry_of :: "string \<times> nat \<Rightarrow> param_entry option" where
  "param_entry_of m =
     (let line = fst m in
      case str_find CHR ''='' line of
        None \<Rightarrow> None
      | Some pos \<Rightarrow>
          (let before_equals = take pos line in
           if startswith (strip before_equals) ''['' \<or>
              (strip before_equals = [] \<and> startswith (strip line) ''['') then None
           else if startswith (strip line) ''('' \<and>
                   (contains line ''=='' \<or> contains line ''!='') then None
           else
             (case param_name_match before_equals of
                None \<Rightarrow> None
              | Some name \<Rightarrow>
                  Some \<lparr>param_name = name, param_line = line, relative_line_idx = snd m,
                        equals_pos = pos,
                        is_nested_block = startswith (strip (drop (Suc pos) line)) ''{''\<rparr>)))"

definition build_param_data :: "(string \<times> nat) list \<Rightarrow> param_entry list" where
  "build_param_data group_lines = List.map_filter param_entry_of group_lines"

text \<open>
  An index into \<open>block_lines\<close> outside the list raises \<open>IndexError\<close>; the functions that
  index return a sum whose left side is that exception.
\<close>

datatype py_error = IndexError

definition has_st004_issue :: "string \<Rightarrow> bool" where
  "has_st004_issue line \<longleftrightarrow> CHR 0x09 \<in> set line"

definition has_st005_issue :: "string \<Rightarrow> nat \<Rightarrow> string list \<Rightarrow> py_error + bool" where
  "has_st005_issue line idx block_lines =
     (if actual_indent line mod 2 \<noteq> 0 then Inr True
      else if actual_indent line = 4 \<and> block_lines \<noteq> [] \<and> idx > 0 then
        (if idx - 1 < length block_lines then
           Inr (contains (block_lines ! (idx - 1)) ''ST.005'')
         else Inl IndexError)
      else Inr False)"

definition meta_parameters :: "string list" where
  "meta_parameters = [''count'', ''for_each'', ''provider'', ''depends_on'', ''lifecycle'']"

definition has_st008_issue :: "string \<Rightarrow> bool" where
  "has_st008_issue name \<longleftrightarrow> name \<in> set meta_parameters"

definition should_skip_alignment_check ::
  "string \<Rightarrow> string \<Rightarrow> nat \<Rightarrow> string list \<Rightarrow> py_error + bool" where
  "should_skip_alignment_check line name idx block_lines =
     (if has_st004_issue line then Inr True
      else
        (case has_st005_issue line idx block_lines of
           Inl e \<Rightarrow> Inl e
         | Inr True \<Rightarrow> Inr True
         | Inr False \<Rightarrow> Inr (has_st008_issue name)))"

subsection \<open>The messages\<close>

definition msg_spacing_incorrect :: "string \<Rightarrow> string" where
  "msg_spacing_incorrect block_type =
     ''Parameter assignment equals sign spacing incorrect in '' @ block_type @
     ''. Expected exactly 1 space between parameter name and '' @ [CHR 0x27, CHR ''='', CHR 0x27]"

definition msg_not_aligned :: "string \<Rightarrow> int \<Rightarrow> nat \<Rightarrow> string" where
  "msg_not_aligned block_type required_spaces expected_equals_location =
     ''Parameter assignment equals sign not aligned in '' @ block_type @ ''. Expected '' @
     str_int required_spaces @ '' spaces between parameter name and '' @
     [CHR 0x27, CHR ''='', CHR 0x27] @ '', equals sign should be at column '' @
     str_nat (expected_equals_location + 1)"

definition msg_too_many_spaces :: "string \<Rightarrow> nat \<Rightarrow> string" where
  "msg_too_many_spaces block_type expected_equals_location =
     ''Parameter assignment equals sign not aligned in '' @ block_type @
     ''. Too many spaces before '' @ [CHR 0x27, CHR ''='', CHR 0x27] @
     '', equals sign should be at column '' @ str_nat (expected_equals_location + 1)"

definition msg_one_space_after :: "string \<Rightarrow> string" where
  "msg_one_space_after block_type =
     ''Parameter assignment should have exactly one space after '' @
     [CHR 0x27, CHR ''='', CHR 0x27] @ '' in '' @ block_type"

definition msg_multiple_spaces_after :: "string \<Rightarrow> string" where
  "msg_multiple_spaces_after block_type =
     msg_one_space_after block_type @ '', found multiple spaces''"

subsection \<open>\<open>_check_equals_after_spacing\<close> and \<open>_check_parameter_spacing\<close>\<close>

definition check_equals_after_spacing ::
  "string \<Rightarrow> nat \<Rightarrow> string \<Rightarrow> nat \<Rightarrow> (nat \<times> string) list" where
  "check_equals_after_spacing line idx block_type block_start_line =
     (case str_find CHR ''='' line of
        None \<Rightarrow> []
      | Some pos \<Rightarrow>
          (let after_equals = drop (Suc pos) line;
               actual_line_num = block_start_line + idx + 1
           in if \<not> startswith after_equals '' '' then
                [(actual_line_num, msg_one_space_after block_type)]
              else if startswith after_equals ''  '' then
                [(actual_line_num, msg_multiple_spaces_after block_type)]
              else []))"

definition check_parameter_spacing ::
  "string \<Rightarrow> nat \<Rightarrow> string \<Rightarrow> nat \<Rightarrow> (nat \<times> string) list" where
  "check_parameter_spacing line idx block_type block_start_line =
     check_equals_after_spacing line idx block_type block_start_line"

subsection \<open>\<open>_check_group_alignment\<close>\<close>

text \<open>\<open>max(xs, key=f)\<close> on a non-empty list: the first element of greatest key.\<close>

fun max_by :: "('a \<Rightarrow> nat) \<Rightarrow> 'a \<Rightarrow> 'a list \<Rightarrow> 'a" where
  "max_by f best [] = best"
| "max_by f best (x # xs) = (if f x > f best then max_by f x xs else max_by f best xs)"

definition longest_param_name_length :: "param_entry list \<Rightarrow> nat" where
  "longest_param_name_length param_data = foldr (\<lambda>p m. max (length (param_name p)) m) param_data 0"

text \<open>\<open>before_equals.strip().startswith('"')\<close> for the text before the first \<open>=\<close> of a line.\<close>

definition name_is_quoted :: "string \<Rightarrow> bool" where
  "name_is_quoted line \<longleftrightarrow>
     (case str_find CHR ''='' line of
        None \<Rightarrow> False
      | Some pos \<Rightarrow> startswith (strip (take pos line)) [CHR 0x22])"

definition has_quoted_params :: "param_entry list \<Rightarrow> bool" where
  "has_quoted_params param_data \<longleftrightarrow> list_ex (\<lambda>p. name_is_quoted (param_line p)) param_data"

text \<open>Lines 1726-1739: the expected offset of \<open>=\<close> in a block that is not \<open>"tfvars"\<close>.\<close>

definition expected_equals_location :: "param_entry list \<Rightarrow> nat \<Rightarrow> nat" where
  "expected_equals_location param_data indent_level =
     indent_level * 2 + longest_param_name_length param_data +
     (if has_quoted_params param_data then 2 else 0) + 1"

text \<open>
  Lines 1686-1722: the dictionary \<open>unique_equals_positions\<close> as the list of its keys in
  insertion order with the number of entries under each, and the expected offset when
  \<open>block_type\<close> is \<open>"tfvars"\<close>.
\<close>

fun count_position :: "nat \<Rightarrow> (nat \<times> nat) list \<Rightarrow> (nat \<times> nat) list" where
  "count_position pos [] = [(pos, 1)]"
| "count_position pos ((k, n) # kvs) =
     (if k = pos then (k, Suc n) # kvs else (k, n) # count_position pos kvs)"

definition unique_equals_positions :: "param_entry list \<Rightarrow> (nat \<times> nat) list" where
  "unique_equals_positions param_data = fold (\<lambda>p d. count_position (equals_pos p) d) param_data []"

definition longest_based_location :: "param_entry list \<Rightarrow> nat \<Rightarrow> nat" where
  "longest_based_location param_data indent_level =
     (case param_data of
        [] \<Rightarrow> indent_level * 2 + 1
      | p # ps \<Rightarrow>
          (let longest = max_by (\<lambda>q. length (param_name q)) p ps;
               quote_chars =
                 (if startswith (strip (take (equals_pos longest) (param_line longest))) [CHR 0x22]
                  then 2 else 0)
           in indent_level * 2 + longest_param_name_length param_data + quote_chars + 1))"

definition tfvars_block_expected_location :: "param_entry list \<Rightarrow> nat \<Rightarrow> nat" where
  "tfvars_block_expected_location param_data indent_level =
     (case unique_equals_positions param_data of
        [] \<Rightarrow> longest_based_location param_data indent_level
      | [(k, n)] \<Rightarrow> k
      | kv # kvs \<Rightarrow>
          (let most_common = max_by snd kv kvs in
           if 2 * snd most_common > length param_data \<and> snd most_common \<ge> 2
           then fst most_common
           else longest_based_location param_data indent_level))"

text \<open>Lines 1742-1767: what one entry contributes in a group of two or more.\<close>

definition alignment_errors_of ::
  "nat \<Rightarrow> nat \<Rightarrow> string \<Rightarrow> nat \<Rightarrow> string list \<Rightarrow> param_entry \<Rightarrow> py_error + (nat \<times> string) list"
  where
  "alignment_errors_of expected indent_level block_type block_start_line block_lines p =
     (let actual_line_num = block_start_line + relative_line_idx p + 1 in
      if equals_pos p = expected then Inr []
      else
        (case should_skip_alignment_check (param_line p) (param_name p) (relative_line_idx p)
                block_lines of
           Inl e \<Rightarrow> Inl e
         | Inr True \<Rightarrow> Inr []
         | Inr False \<Rightarrow>
             (let required_spaces_before_equals =
                    int expected - int (indent_level * 2) - int (length (param_name p))
              in if equals_pos p < expected then
                   Inr [(actual_line_num,
                         msg_not_aligned block_type required_spaces_before_equals expected)]
                 else Inr [(actual_line_num, msg_too_many_spaces block_type expected)])))"

text \<open>The loop: the errors of the entries in order, or the first exception.\<close>

fun collect_errors ::
  "('a \<Rightarrow> py_error + (nat \<times> string) list) \<Rightarrow> 'a list \<Rightarrow> py_error + (nat \<times> string) list"
  where
  "collect_errors f [] = Inr []"
| "collect_errors f (x # xs) =
     (case f x of
        Inl e \<Rightarrow> Inl e
      | Inr es \<Rightarrow> (case collect_errors f xs of Inl e \<Rightarrow> Inl e | Inr es' \<Rightarrow> Inr (es @ es')))"

text \<open>Lines 1657-1677: a group whose \<open>param_data\<close> has one entry.\<close>

definition spaces_before_equals :: "param_entry \<Rightarrow> nat" where
  "spaces_before_equals p =
     (let before_equals = take (equals_pos p) (param_line p)
      in length before_equals - length (rstrip before_equals))"

definition single_param_errors ::
  "string \<Rightarrow> nat \<Rightarrow> string list \<Rightarrow> param_entry \<Rightarrow> py_error + (nat \<times> string) list" where
  "single_param_errors block_type block_start_line block_lines p =
     (case should_skip_alignment_check (param_line p) (param_name p) (relative_line_idx p)
             block_lines of
        Inl e \<Rightarrow> Inl e
      | Inr True \<Rightarrow> Inr []
      | Inr False \<Rightarrow>
          (if spaces_before_equals p \<noteq> 1 then
             Inr [(block_start_line + relative_line_idx p + 1, msg_spacing_incorrect block_type)]
           else Inr []))"

definition check_group_alignment ::
  "(string \<times> nat) list \<Rightarrow> nat \<Rightarrow> string \<Rightarrow> nat \<Rightarrow> string list \<Rightarrow>
   py_error + (nat \<times> string) list" where
  "check_group_alignment group_lines indent_level block_type block_start_line block_lines =
     (let param_data = build_param_data group_lines in
      case param_data of
        [] \<Rightarrow> Inr []
      | [p] \<Rightarrow> single_param_errors block_type block_start_line block_lines p
      | _ \<Rightarrow>
          (let expected =
                 (if block_type = ''tfvars''
                  then tfvars_block_expected_location param_data indent_level
                  else expected_equals_location param_data indent_level)
           in collect_errors
                (alignment_errors_of expected indent_level block_type block_start_line block_lines)
                param_data))"

section \<open>ST.003: one section of a block (rule\_003.py)\<close>

text \<open>\<open>re.match(r'^\s*(data|resource|variable|output|locals|module)\s+', line)\<close>.\<close>

definition is_block_declaration :: "string \<Rightarrow> bool" where
  "is_block_declaration line \<longleftrightarrow>
     (let s = dropWhile is_space line in
      list_ex (\<lambda>kw. startswith s kw \<and> drop (length kw) s \<noteq> [] \<and>
                       is_space (hd (drop (length kw) s)))
        [''data'', ''resource'', ''variable'', ''output'', ''locals'', ''module''])"

text \<open>\<open>re.match(r'^\s*[a-zA-Z_][a-zA-Z0-9_]*\s*=\s*\{', line)\<close>.\<close>

definition is_ident_start :: "char \<Rightarrow> bool" where
  "is_ident_start c \<longleftrightarrow>
     c \<in> set ''abcdefghijklmnopqrstuvwxyzABCDEFGHIJKLMNOPQRSTUVWXYZ_''"

definition is_ident_char :: "char \<Rightarrow> bool" where
  "is_ident_char c \<longleftrightarrow> is_ident_start c \<or> c \<in> set ''0123456789''"

definition is_object_assignment :: "string \<Rightarrow> bool" where
  "is_object_assignment line \<longleftrightarrow>
     (let s = dropWhile is_space line in
      s \<noteq> [] \<and> is_ident_start (hd s) \<and>
      (let r = dropWhile is_space (dropWhile is_ident_char (tl s)) in
       r \<noteq> [] \<and> hd r = CHR ''='' \<and> startswith (dropWhile is_space (tl r)) ''{''))"

text \<open>
  Lines 1380-1421 compute nothing that is used; their only effect is the \<open>IndexError\<close> of
  \<open>block_lines[relative_line_idx]\<close> for an assignment line of the section whose index lies
  outside \<open>block_lines\<close>.
\<close>

definition section_index_error :: "(string \<times> nat) list \<Rightarrow> string list \<Rightarrow> bool" where
  "section_index_error section_lines block_lines \<longleftrightarrow>
     block_lines \<noteq> [] \<and> section_lines \<noteq> [] \<and>
     list_ex (\<lambda>m. CHR ''='' \<in> set (fst m) \<and> \<not> startswith (strip (fst m)) ''#'' \<and>
                   snd m \<ge> length block_lines) section_lines"

text \<open>
  Lines 1428-1467: the parameter lines of a section. The first two arguments are the
  heredoc flag and terminator, the third the whole section (for the
  \<open>required_providers\<close> test).
\<close>

fun extract_parameter_lines ::
  "bool \<Rightarrow> string option \<Rightarrow> (string \<times> nat) list \<Rightarrow> (string \<times> nat) list \<Rightarrow> (string \<times> nat) list"
  where
  "extract_parameter_lines inh term whole [] = []"
| "extract_parameter_lines inh term whole ((line_content, idx) # rest) =
     (let line = rstrip line_content;
          line_stripped = strip line;
          ended = (inh \<and> (case term of None \<Rightarrow> False | Some t \<Rightarrow> t \<noteq> [] \<and> line_stripped = t));
          inh1 = (inh \<and> \<not> ended);
          term1 = (if ended then None else term)
      in if inh1 then extract_parameter_lines inh1 term1 whole rest
         else
           (let inh2 = (heredoc_search line \<noteq> None);
                term2 = (case heredoc_search line of None \<Rightarrow> term1 | Some t \<Rightarrow> Some t);
                keep =
                  (CHR ''='' \<in> set line \<and> \<not> startswith line_stripped ''#'' \<and>
                   \<not> is_block_declaration line \<and>
                   \<not> (is_object_assignment line \<and>
                      list_ex (\<lambda>m. contains (fst m) ''required_providers'') whole) \<and>
                   \<not> (startswith line_stripped ''('' \<and>
                      (contains line ''=='' \<or> contains line ''!='')))
            in (if keep then [(line, idx)] else []) @
               extract_parameter_lines inh2 term2 whole rest))"

text \<open>Lines 1476-1484: the dictionary \<open>indent_groups\<close>, keys in insertion order.\<close>

definition indent_level_of :: "string \<Rightarrow> nat" where
  "indent_level_of line = actual_indent (expandtabs line) div 2"

fun add_to_group :: "nat \<Rightarrow> 'a \<Rightarrow> (nat \<times> 'a list) list \<Rightarrow> (nat \<times> 'a list) list" where
  "add_to_group k x [] = [(k, [x])]"
| "add_to_group k x ((k', xs) # gs) =
     (if k' = k then (k', xs @ [x]) # gs else (k', xs) # add_to_group k x gs)"

definition indent_groups :: "(string \<times> nat) list \<Rightarrow> (nat \<times> (string \<times> nat) list) list" where
  "indent_groups parameter_lines =
     fold (\<lambda>m gs. add_to_group (indent_level_of (fst m)) m gs) parameter_lines []"

text \<open>Lines 1493-1519: splitting a sorted indentation group at the blank lines of the block.\<close>

definition has_empty_line_between :: "string list \<Rightarrow> nat \<Rightarrow> nat \<Rightarrow> bool" where
  "has_empty_line_between block_lines prev_idx idx \<longleftrightarrow>
     list_ex (\<lambda>k. k < length block_lines \<and> strip (block_lines ! k) = []) [Suc prev_idx ..< idx]"

fun split_sub_groups ::
  "string list \<Rightarrow> nat option \<Rightarrow> (string \<times> nat) list \<Rightarrow> (string \<times> nat) list \<Rightarrow>
   (string \<times> nat) list list" where
  "split_sub_groups block_lines prev cur [] = (if cur \<noteq> [] then [cur] else [])"
| "split_sub_groups block_lines prev cur (m # rest) =
     (if prev \<noteq> None \<and> block_lines \<noteq> [] \<and> has_empty_line_between block_lines (the prev) (snd m)
      then (if cur \<noteq> [] then [cur] else []) @
           split_sub_groups block_lines (Some (snd m)) [m] rest
      else split_sub_groups block_lines (Some (snd m)) (cur @ [m]) rest)"

definition sub_groups_of :: "string list \<Rightarrow> (string \<times> nat) list \<Rightarrow> (string \<times> nat) list list" where
  "sub_groups_of block_lines group_lines =
     split_sub_groups block_lines None [] (sort_key snd group_lines)"

text \<open>Lines 1522-1529: the errors of one sub-group, alignment first, then the spacing of each line.\<close>

definition sub_group_errors ::
  "nat \<Rightarrow> string \<Rightarrow> nat \<Rightarrow> string list \<Rightarrow> (string \<times> nat) list \<Rightarrow> py_error + (nat \<times> string) list"
  where
  "sub_group_errors indent_level block_type block_start_line block_lines sub_group =
     (case check_group_alignment sub_group indent_level block_type block_start_line block_lines of
        Inl e \<Rightarrow> Inl e
      | Inr es \<Rightarrow>
          Inr (es @ concat (map (\<lambda>m. check_parameter_spacing (fst m) (snd m) block_type
                                      block_start_line) sub_group)))"

definition check_parameter_alignment_in_section ::
  "(string \<times> nat) list \<Rightarrow> string \<Rightarrow> nat \<Rightarrow> string list \<Rightarrow> py_error + (nat \<times> string) list"
  where
  "check_parameter_alignment_in_section section_lines block_type block_start_line block_lines =
     (if section_index_error section_lines block_lines then Inl IndexError
      else
        collect_errors
          (\<lambda>g. collect_errors
                 (sub_group_errors (fst g) block_type block_start_line block_lines)
                 (sub_groups_of block_lines (snd g)))
          (indent_groups (extract_parameter_lines False None section_lines section_lines)))"

subsection \<open>The end of \<open>check_st003_parameter_alignment\<close>: sorting and reporting\<close>

text \<open>
  Lines 127-141. \<open>all_errors.sort(key=lambda x: x[0])\<close> is a stable sort on the line number;
  the loop with the set \<open>seen\<close> keeps the first occurrence of every (line, message) pair.
  The result is the list of calls of \<open>log_error_func\<close>.
\<close>

fun unique_errors :: "(nat \<times> string) list \<Rightarrow> (nat \<times> string) list \<Rightarrow> (nat \<times> string) list" where
  "unique_errors seen [] = []"
| "unique_errors seen (e # es) =
     (if e \<in> set seen then unique_errors seen es else e # unique_errors (e # seen) es)"

definition report_block_errors :: "(nat \<times> string) list \<Rightarrow> (nat \<times> string) list" where
  "report_block_errors all_errors = unique_errors [] (sort_key fst all_errors)"

text \<open>
  Lines 2579-2592, the same place of \<open>_check_tfvars_parameter_alignment\<close>: an error is kept
  only when its line number is not yet in \<open>processed_lines\<close>; the argument lists the errors
  of the sections in the order the loop receives them.
\<close>

fun keep_unprocessed :: "nat list \<Rightarrow> (nat \<times> string) list \<Rightarrow> (nat \<times> string) list" where
  "keep_unprocessed processed_lines [] = []"
| "keep_unprocessed processed_lines (e # es) =
     (if fst e \<in> set processed_lines then keep_unprocessed processed_lines es
      else e # keep_unprocessed (fst e # processed_lines) es)"

definition report_tfvars_errors :: "(nat \<times> string) list list \<Rightarrow> (nat \<times> string) list" where
  "report_tfvars_errors section_errors =
     sort_key fst (keep_unprocessed [] (concat section_errors))"

section \<open>ST.003: comments and blocks (rule\_003.py)\<close>

text \<open>
  \<open>_remove_comments_for_parsing\<close>, one line: the scan for the first \<open>#\<close> outside quotes.
  The arguments are the offset, the character before it, the quote that is open (if any) and
  the rest of the line; the result is the offset of that \<open>#\<close>.
\<close>

fun comment_start :: "nat \<Rightarrow> char option \<Rightarrow> char option \<Rightarrow> string \<Rightarrow> nat option" where
  "comment_start i prev quote_char [] = None"
| "comment_start i prev quote_char (c # cs) =
     (if (c = CHR 0x22 \<or> c = CHR 0x27) \<and> (i = 0 \<or> prev \<noteq> Some CHR 0x5C) then
        (case quote_char of
           None \<Rightarrow> comment_start (Suc i) (Some c) (Some c) cs
         | Some q \<Rightarrow>
             if c = q then comment_start (Suc i) (Some c) None cs
             else comment_start (Suc i) (Some c) quote_char cs)
      else if c = CHR ''#'' \<and> quote_char = None then Some i
      else comment_start (Suc i) (Some c) quote_char cs)"

definition remove_comment :: "string \<Rightarrow> string" where
  "remove_comment line =
     (case comment_start 0 None None line of
        None \<Rightarrow> line
      | Some i \<Rightarrow> if strip (take i line) = [] then line else rstrip (take i line))"

definition remove_comments_for_parsing :: "string \<Rightarrow> string" where
  "remove_comments_for_parsing content = join_lines (map remove_comment (split_lines content))"

text \<open>
  The header patterns of \<open>_extract_code_blocks\<close>. A name is
  \<open>"([^"]+)"|'([^']+)'|([a-zA-Z_][a-zA-Z0-9_]*)\<close>; \<open>name_token\<close> returns it with the text
  that follows.
\<close>

definition name_token :: "string \<Rightarrow> (string \<times> string) option" where
  "name_token s =
     (case s of
        [] \<Rightarrow> None
      | c # t \<Rightarrow>
          if c = CHR 0x22 \<or> c = CHR 0x27 then
            (let n = takeWhile (\<lambda>x. x \<noteq> c) t; r = dropWhile (\<lambda>x. x \<noteq> c) t
             in if n \<noteq> [] \<and> r \<noteq> [] then Some (n, tl r) else None)
          else if is_ident_start c then
            Some (c # takeWhile is_ident_char t, dropWhile is_ident_char t)
          else None)"

text \<open>\<open>\s+\<close> followed by a name.\<close>

definition spaced_name :: "string \<Rightarrow> (string \<times> string) option" where
  "spaced_name s =
     (if s \<noteq> [] \<and> is_space (hd s) then name_token (dropWhile is_space s) else None)"

text \<open>\<open>\s*\{\<close>.\<close>

definition opens_brace :: "string \<Rightarrow> bool" where
  "opens_brace s \<longleftrightarrow> startswith (dropWhile is_space s) ''{''"

text \<open>\<open>kw\s+NAME\s+NAME\s*\{\<close>, \<open>kw\s+NAME\s*\{\<close> and \<open>kw\s*\{\<close>, matched at the start of the line.\<close>

definition match_two_names :: "string \<Rightarrow> string \<Rightarrow> (string \<times> string) option" where
  "match_two_names kw line =
     (if startswith line kw then
        (case spaced_name (drop (length kw) line) of
           None \<Rightarrow> None
         | Some (a, r) \<Rightarrow>
             (case spaced_name r of
                None \<Rightarrow> None
              | Some (b, r') \<Rightarrow> if opens_brace r' then Some (a, b) else None))
      else None)"

definition match_one_name :: "string \<Rightarrow> string \<Rightarrow> string option" where
  "match_one_name kw line =
     (if startswith line kw then
        (case spaced_name (drop (length kw) line) of
           None \<Rightarrow> None
         | Some (a, r) \<Rightarrow> if opens_brace r then Some a else None)
      else None)"

definition match_no_name :: "string \<Rightarrow> string \<Rightarrow> bool" where
  "match_no_name kw line \<longleftrightarrow> startswith line kw \<and> opens_brace (drop (length kw) line)"

text \<open>Lines 202-236: the block type of a stripped header line, in the order of the tests.\<close>

definition block_type_of :: "string \<Rightarrow> string option" where
  "block_type_of line =
     (case match_two_names ''data'' line of
        Some (t, n) \<Rightarrow> Some (''data.'' @ t @ ''.'' @ n)
      | None \<Rightarrow>
     (case match_two_names ''resource'' line of
        Some (t, n) \<Rightarrow> Some (''resource.'' @ t @ ''.'' @ n)
      | None \<Rightarrow>
     (case match_one_name ''provider'' line of
        Some t \<Rightarrow> Some (''provider.'' @ t)
      | None \<Rightarrow>
     (if match_no_name ''locals'' line then Some ''locals''
      else if match_no_name ''terraform'' line then Some ''terraform''
      else
     (case match_one_name ''variable'' line of
        Some n \<Rightarrow> Some (''variable.'' @ n)
      | None \<Rightarrow>
     (case match_one_name ''output'' line of
        Some n \<Rightarrow> Some (''output.'' @ n)
      | None \<Rightarrow> None))))))"

text \<open>
  Lines 250-258: the lines of a body, taken while the brace counter is positive. The counter
  is an \<open>int\<close>: a line may close more braces than are open.
\<close>

definition brace_delta :: "string \<Rightarrow> int" where
  "brace_delta line = count_char CHR ''{'' line - count_char CHR ''}'' line"

fun take_block :: "int \<Rightarrow> string list \<Rightarrow> string list" where
  "take_block brace_count [] = []"
| "take_block brace_count (l # ls) =
     (if brace_count > 0 then l # take_block (brace_count + brace_delta l) ls else [])"

definition drop_closing_line :: "string list \<Rightarrow> string list" where
  "drop_closing_line block_lines =
     (if block_lines \<noteq> [] \<and> strip (last block_lines) = ''}'' then butlast block_lines
      else block_lines)"

text \<open>
  \<open>_extract_code_blocks\<close> on the lines from offset \<open>i\<close> on; a block is (block type, start
  line, body lines).
\<close>

function extract_blocks_from :: "nat \<Rightarrow> string list \<Rightarrow> (string \<times> nat \<times> string list) list" where
  "extract_blocks_from i [] = []"
| "extract_blocks_from i (l # ls) =
     (case block_type_of (strip l) of
        None \<Rightarrow> extract_blocks_from (Suc i) ls
      | Some bt \<Rightarrow>
          (if CHR ''{'' \<in> set (strip l) \<and> CHR ''}'' \<in> set (strip l) then
             (bt, Suc i, []) # extract_blocks_from (Suc i) ls
           else
             (bt, Suc i, drop_closing_line (take_block 1 ls)) #
             extract_blocks_from (Suc i + length (take_block 1 ls))
               (drop (length (take_block 1 ls)) ls)))"
  by pat_completeness auto
termination
  by (relation "measure (\<lambda>(i, ls). length ls)") auto

definition extract_code_blocks :: "string \<Rightarrow> (string \<times> nat \<times> string list) list" where
  "extract_code_blocks content = extract_blocks_from 0 (split_lines content)"

section \<open>ST.003: alignment inside one group of a \<open>.tfvars\<close> file\<close>

text \<open>\<open>_is_equals_in_string_value\<close> (lines 1947-1998).\<close>

definition comparison_ops :: "string list" where
  "comparison_ops = [''=='', ''!='', ''>='', ''<='']"

definition quoted_op_in :: "char \<Rightarrow> string \<Rightarrow> bool" where
  "quoted_op_in q s \<longleftrightarrow>
     list_ex (\<lambda>op. contains s (q # op) \<or> contains s (op @ [q])) comparison_ops"

definition is_equals_in_string_value :: "string \<Rightarrow> bool" where
  "is_equals_in_string_value line \<longleftrightarrow>
     (case str_find CHR ''='' line of
        None \<Rightarrow> False
      | Some pos \<Rightarrow>
          (let line_stripped = strip line;
               after_equals = strip (drop (Suc pos) line);
               before_equals = strip (take pos line)
           in (startswith line_stripped [CHR 0x22] \<and> quoted_op_in CHR 0x22 line) \<or>
              (startswith line_stripped [CHR 0x27] \<and> quoted_op_in CHR 0x27 line) \<or>
              (startswith after_equals [CHR 0x22] \<and> quoted_op_in CHR 0x22 after_equals \<and>
               before_equals = []) \<or>
              (startswith after_equals [CHR 0x27] \<and> quoted_op_in CHR 0x27 after_equals \<and>
               before_equals = [])))"

text \<open>
  Lines 2880-2891: the name before the \<open>=\<close>. With a leading quote the pattern is
  \<open>^\s*(["\'])([^"\'=\s]+)\1\<close>, otherwise \<open>^\s*([^"\'=\s]+)\<close>; neither is anchored at
  the end.
\<close>

definition starts_with_quote :: "string \<Rightarrow> bool" where
  "starts_with_quote s \<longleftrightarrow> startswith s [CHR 0x22] \<or> startswith s [CHR 0x27]"

definition tfvars_name_match :: "string \<Rightarrow> string option" where
  "tfvars_name_match before_equals =
     (let s1 = dropWhile is_space before_equals in
      if starts_with_quote (strip before_equals) then
        (if s1 \<noteq> [] \<and> (hd s1 = CHR 0x22 \<or> hd s1 = CHR 0x27) then
           (let name = takeWhile is_name_char (tl s1);
                rest = dropWhile is_name_char (tl s1)
            in if name \<noteq> [] \<and> rest \<noteq> [] \<and> hd rest = hd s1 then Some name else None)
         else None)
      else
        (let name = takeWhile is_name_char s1 in if name \<noteq> [] then Some name else None))"

record tfvars_param =
  tv_name :: string
  tv_line :: string
  tv_line_num :: nat
  tv_equals_pos :: nat
  tv_should_skip :: bool

text \<open>Lines 2852-2896: the entry of one group line; \<open>equals_pos\<close> is taken after \<open>expandtabs(2)\<close>.\<close>

definition tfvars_param_of :: "nat \<times> string \<Rightarrow> tfvars_param option" where
  "tfvars_param_of m =
     (let line = snd m; display_line = expandtabs line in
      case str_find CHR ''='' display_line of
        None \<Rightarrow> None
      | Some pos \<Rightarrow>
          (let before_equals = take pos display_line;
               after_equals = strip (drop (Suc pos) display_line);
               is_object_or_array_decl =
                 (startswith after_equals ''['' \<or> startswith after_equals ''{'')
           in if is_equals_in_string_value display_line then None
              else if startswith (strip before_equals) ''['' \<or>
                      (strip before_equals = [] \<and> startswith (strip line) ''['') then None
              else
                (case tfvars_name_match before_equals of
                   None \<Rightarrow> None
                 | Some name \<Rightarrow>
                     Some \<lparr>tv_name = name, tv_line = line, tv_line_num = fst m,
                           tv_equals_pos = pos,
                           tv_should_skip = (is_object_or_array_decl \<and> actual_indent line > 0)\<rparr>)))"

text \<open>Lines 2841-2848: the first line of every line number.\<close>

fun unique_group_lines :: "nat list \<Rightarrow> (nat \<times> string) list \<Rightarrow> (nat \<times> string) list" where
  "unique_group_lines seen [] = []"
| "unique_group_lines seen (m # ms) =
     (if fst m \<in> set seen then unique_group_lines seen ms
      else m # unique_group_lines (fst m # seen) ms)"

definition tfvars_param_data :: "(nat \<times> string) list \<Rightarrow> tfvars_param list" where
  "tfvars_param_data group_lines =
     List.map_filter tfvars_param_of (unique_group_lines [] group_lines)"

definition has_tab :: "tfvars_param \<Rightarrow> bool" where
  "has_tab p \<longleftrightarrow> CHR 0x09 \<in> set (tv_line p)"

text \<open>\<open>max\<close> of the name lengths of a list of entries (only called on non-empty lists).\<close>

definition max_name_length :: "tfvars_param list \<Rightarrow> nat" where
  "max_name_length ps = foldr (\<lambda>p m. max (length (tv_name p)) m) ps 0"

text \<open>
  Lines 2904-2930 (and again 3032-3055): the name length the expected offset is computed
  from. Nested object or array declarations count only when the longest of them is at least
  4 characters longer than the longest other name; lines with a tab count only when there is
  nothing else.
\<close>

definition tfvars_longest_name_length :: "tfvars_param list \<Rightarrow> nat" where
  "tfvars_longest_name_length param_data =
     (let non_skipped = filter (\<lambda>p. \<not> tv_should_skip p \<and> \<not> has_tab p) param_data;
          skipped = filter (\<lambda>p. tv_should_skip p \<and> \<not> has_tab p) param_data;
          non_tab = filter (\<lambda>p. \<not> has_tab p) param_data
      in if non_skipped \<noteq> [] then
           (if skipped \<noteq> [] \<and> max_name_length skipped > max_name_length non_skipped \<and>
               max_name_length skipped - max_name_length non_skipped \<ge> 4
            then max_name_length skipped else max_name_length non_skipped)
         else if non_tab \<noteq> [] then max_name_length non_tab
         else max_name_length param_data)"

text \<open>\<open>line[:line.find('=')].strip()\<close> starts with a double or a single quote.\<close>

definition tfvars_name_is_quoted :: "string \<Rightarrow> bool" where
  "tfvars_name_is_quoted line \<longleftrightarrow>
     (case str_find CHR ''='' line of
        None \<Rightarrow> starts_with_quote (strip (butlast line))
      | Some pos \<Rightarrow> starts_with_quote (strip (take pos line)))"

definition tfvars_quote_chars :: "tfvars_param list \<Rightarrow> nat" where
  "tfvars_quote_chars param_data =
     (if list_ex (\<lambda>p. tfvars_name_is_quoted (tv_line p)) param_data then 2 else 0)"

text \<open>The offset computed from the longest name: \<open>indent_spaces + longest + quote_chars + 1\<close>.\<close>

definition tfvars_formula_location :: "tfvars_param list \<Rightarrow> nat \<Rightarrow> nat" where
  "tfvars_formula_location param_data indent_level =
     indent_level * 2 + tfvars_longest_name_length param_data + tfvars_quote_chars param_data + 1"

text \<open>
  Lines 2935-2942: \<open>unique_equals_positions\<close>, the offsets of the lines without a tab in
  insertion order, each with its number of lines.
\<close>

definition tfvars_unique_positions :: "tfvars_param list \<Rightarrow> (nat \<times> nat) list" where
  "tfvars_unique_positions param_data =
     fold (\<lambda>p d. count_position (tv_equals_pos p) d) (filter (\<lambda>p. \<not> has_tab p) param_data) []"

definition msg_at_least_one_space_after :: "string \<Rightarrow> string" where
  "msg_at_least_one_space_after block_type =
     ''Parameter assignment should have at least one space after '' @
     [CHR 0x27, CHR ''='', CHR 0x27] @ '' in '' @ block_type"

definition abs_diff :: "nat \<Rightarrow> nat \<Rightarrow> nat" where
  "abs_diff a b = (if a \<le> b then b - a else a - b)"

text \<open>The message pair of an entry that is off the expected offset (both directions).\<close>

definition tfvars_off_location ::
  "string \<Rightarrow> nat \<Rightarrow> nat \<Rightarrow> nat \<Rightarrow> nat \<Rightarrow> nat \<Rightarrow> (nat \<times> string) list" where
  "tfvars_off_location block_type indent_level expected name_len line_num pos =
     (if pos < expected then
        [(line_num, msg_not_aligned block_type
                      (int expected - int (indent_level * 2) - int name_len) expected)]
      else if pos > expected then [(line_num, msg_too_many_spaces block_type expected)]
      else [])"

text \<open>Lines 2946-3011: every line without a tab has its \<open>=\<close> at the one offset \<open>aligned\<close>.\<close>

definition tfvars_aligned_errors ::
  "tfvars_param list \<Rightarrow> nat \<Rightarrow> string \<Rightarrow> nat \<Rightarrow> (nat \<times> string) list" where
  "tfvars_aligned_errors param_data indent_level block_type aligned =
     (let expected = tfvars_formula_location param_data indent_level;
          checked = filter (\<lambda>p. \<not> tv_should_skip p \<and> \<not> has_tab p) param_data
      in (if aligned < expected then
            concat (map (\<lambda>p. if tv_equals_pos p \<noteq> expected then
                               [(tv_line_num p,
                                 msg_not_aligned block_type
                                   (int expected - int (indent_level * 2) -
                                    int (length (tv_name p))) expected)]
                             else []) checked)
          else []) @
         concat (map (\<lambda>p. case str_find CHR ''='' (tv_line p) of
                            None \<Rightarrow> []
                          | Some pos \<Rightarrow>
                              (if \<not> startswith (drop (Suc pos) (tv_line p)) '' '' then
                                 [(tv_line_num p, msg_at_least_one_space_after block_type)]
                               else [])) checked))"

text \<open>Lines 3090-3137: the branch that uses the most common offset as the expected one.\<close>

definition tfvars_most_common_errors ::
  "tfvars_param list \<Rightarrow> nat \<Rightarrow> string \<Rightarrow> nat \<Rightarrow> nat \<Rightarrow> (nat \<times> string) list" where
  "tfvars_most_common_errors param_data indent_level block_type most_common_pos
       most_common_count =
     (let expected = most_common_pos;
          checked = filter (\<lambda>p. \<not> tv_should_skip p) param_data
      in concat (map (\<lambda>p.
                   if tv_equals_pos p \<noteq> expected then
                     (if most_common_count > 1 \<and> tv_equals_pos p = most_common_pos then []
                      else if abs_diff (tv_equals_pos p) expected \<le> 1 then []
                      else tfvars_off_location block_type indent_level expected
                             (length (tv_name p)) (tv_line_num p) (tv_equals_pos p))
                   else []) checked) @
         concat (map (\<lambda>p. if \<not> startswith (drop (Suc (tv_equals_pos p)) (tv_line p)) '' ''
                          then [(tv_line_num p, msg_at_least_one_space_after block_type)]
                          else []) checked))"

text \<open>
  Lines 3233-3261: whether the entry of a line number is directly followed, on the next
  line, by a nested declaration whose length decided the expected offset.
\<close>

fun entries_from :: "nat \<Rightarrow> tfvars_param list \<Rightarrow> tfvars_param list" where
  "entries_from n [] = []"
| "entries_from n (p # ps) = (if tv_line_num p = n then p # ps else entries_from n ps)"

definition should_align_with_next_decl :: "tfvars_param list \<Rightarrow> nat \<Rightarrow> bool" where
  "should_align_with_next_decl param_data line_num \<longleftrightarrow>
     (case entries_from line_num param_data of
        p # next_param # _ \<Rightarrow>
          tv_should_skip next_param \<and> int (tv_line_num next_param) - int line_num = 1 \<and>
          (let skipped = filter (\<lambda>p. tv_should_skip p \<and> \<not> has_tab p) param_data;
               non_skipped = filter (\<lambda>p. \<not> tv_should_skip p \<and> \<not> has_tab p) param_data;
               non_skipped_len = (if non_skipped \<noteq> [] then max_name_length non_skipped else 0)
           in skipped \<noteq> [] \<and> max_name_length skipped > non_skipped_len \<and>
              max_name_length skipped - non_skipped_len \<ge> 4)
      | _ \<Rightarrow> False)"

text \<open>
  Lines 3158-3288: the loop that checks against the offset of the formula
  (\<open>use_most_common\<close> is false whenever it is reached).
\<close>

definition tfvars_formula_errors_of ::
  "tfvars_param list \<Rightarrow> nat \<Rightarrow> string \<Rightarrow> nat \<times> nat \<Rightarrow> nat \<Rightarrow> tfvars_param \<Rightarrow>
   (nat \<times> string) list" where
  "tfvars_formula_errors_of param_data indent_level block_type most_common expected p =
     (let pos = tv_equals_pos p;
          param_display_length =
            length (tv_name p) + (if tfvars_name_is_quoted (tv_line p) then 2 else 0);
          non_tab_aligned_count =
            length (filter (\<lambda>q. tv_equals_pos q = pos \<and> \<not> has_tab q) param_data)
      in if tv_should_skip p then []
         else if pos = expected then []
         else if has_tab p then []
         else if actual_indent (tv_line p) mod 2 \<noteq> 0 then []
         else if non_tab_aligned_count \<ge> 2 \<and> abs_diff pos expected \<le> 1 then []
         else if non_tab_aligned_count \<ge> 2 \<and> tfvars_unique_positions param_data \<noteq> [] \<and>
                 pos = fst most_common \<and> snd most_common > non_tab_aligned_count \<and>
                 (pos = expected \<or> abs_diff pos expected \<le> 1) \<and>
                 \<not> should_align_with_next_decl param_data (tv_line_num p) then []
         else tfvars_off_location block_type indent_level expected param_display_length
                (tv_line_num p) pos)"

text \<open>
  Lines 3016-3027: \<open>most_common_pos\<close>, the first offset with the greatest number of lines,
  with that number; \<open>(0, 0)\<close> when every line has a tab.
\<close>

definition tfvars_most_common :: "tfvars_param list \<Rightarrow> nat \<times> nat" where
  "tfvars_most_common param_data =
     (case tfvars_unique_positions param_data of
        [] \<Rightarrow> (0, 0)
      | kv # kvs \<Rightarrow> max_by snd kv kvs)"

text \<open>\<open>_check_group_alignment_tfvars\<close>.\<close>

definition check_group_alignment_tfvars ::
  "(nat \<times> string) list \<Rightarrow> nat \<Rightarrow> string \<Rightarrow> (nat \<times> string) list" where
  "check_group_alignment_tfvars group_lines indent_level block_type =
     (let param_data = tfvars_param_data group_lines in
      if length param_data < 2 then []
      else
        (case tfvars_unique_positions param_data of
           [(aligned, n)] \<Rightarrow> tfvars_aligned_errors param_data indent_level block_type aligned
         | positions \<Rightarrow>
             (let most_common = tfvars_most_common param_data;
                  non_tab_count = length (filter (\<lambda>p. \<not> has_tab p) param_data);
                  total_params =
                    (if positions = [] \<and> non_tab_count = 0 then length param_data
                     else non_tab_count);
                  expected = tfvars_formula_location param_data indent_level
              in if (2 * snd most_common > total_params \<or>
                     (total_params = 2 \<and> snd most_common = 2)) \<and>
                    \<not> abs_diff (fst most_common) expected \<ge> 2
                 then tfvars_most_common_errors param_data indent_level block_type
                        (fst most_common) (snd most_common)
                 else concat (map (tfvars_formula_errors_of param_data indent_level block_type
                                     most_common expected) param_data))))"

text \<open>\<open>_check_parameter_spacing_tfvars\<close> (lines 3293-3322).\<close>

definition msg_at_least_one_space_before :: "string \<Rightarrow> string" where
  "msg_at_least_one_space_before block_type =
     ''Parameter assignment should have at least one space before '' @
     [CHR 0x27, CHR ''='', CHR 0x27] @ '' in '' @ block_type"

definition check_parameter_spacing_tfvars :: "string \<Rightarrow> nat \<Rightarrow> string \<Rightarrow> (nat \<times> string) list"
  where
  "check_parameter_spacing_tfvars line actual_line_num block_type =
     (case str_find CHR ''='' line of
        None \<Rightarrow> []
      | Some pos \<Rightarrow>
          (let before_equals_raw = take pos line;
               after_equals = drop (Suc pos) line
           in (if strip before_equals_raw = [] \<or> \<not> endswith before_equals_raw '' ''
               then [(actual_line_num, msg_at_least_one_space_before block_type)] else []) @
              (if \<not> startswith after_equals '' '' then
                 [(actual_line_num, msg_at_least_one_space_after block_type)]
               else if startswith after_equals ''  '' then
                 [(actual_line_num, msg_multiple_spaces_after block_type)]
               else [])))"

section \<open>Notions of the specification\<close>

text \<open>
  A tab among the blanks and tabs that start a line, that is, before the first character
  that is neither.
\<close>

definition tab_in_indentation :: "string \<Rightarrow> bool" where
  "tab_in_indentation line \<longleftrightarrow>
     CHR 0x09 \<in> set (takeWhile (\<lambda>c. c = CHR '' '' \<or> c = CHR 0x09) line)"







text \<open>The number of blanks that directly follow the first \<open>=\<close> of a line.\<close>

definition spaces_after_equals :: "string \<Rightarrow> nat option" where
  "spaces_after_equals line =
     (case str_find CHR ''='' line of
        None \<Rightarrow> None
      | Some pos \<Rightarrow> Some (length (takeWhile (\<lambda>c. c = CHR '' '') (drop (Suc pos) line))))"

text \<open>
  Section 4.5 of the specification: a member is excluded from reporting when it contains a
  tab, when its own indentation is no multiple of 2, or when its name is a meta-parameter.
  \<open>spec_eligible\<close> holds of the members that none of the three excludes.
\<close>

definition spec_eligible :: "param_entry \<Rightarrow> bool" where
  "spec_eligible p \<longleftrightarrow>
     CHR 0x09 \<notin> set (param_line p) \<and> actual_indent (param_line p) mod 2 = 0 \<and>
     param_name p \<notin> set [''count'', ''for_each'', ''provider'', ''depends_on'', ''lifecycle'']"

text \<open>
  A member indented by exactly 4 whose preceding line of the block contains the text
  \<open>ST.005\<close>.
\<close>

definition below_st005_mention :: "string list \<Rightarrow> param_entry \<Rightarrow> bool" where
  "below_st005_mention block_lines p \<longleftrightarrow>
     actual_indent (param_line p) = 4 \<and> 0 < relative_line_idx p \<and>
     relative_line_idx p \<le> length block_lines \<and>
     contains (block_lines ! (relative_line_idx p - 1)) ''ST.005''"

text \<open>A member that none of the four conditions excludes from reporting.\<close>

definition reportable :: "string list \<Rightarrow> param_entry \<Rightarrow> bool" where
  "reportable block_lines p \<longleftrightarrow> spec_eligible p \<and> \<not> below_st005_mention block_lines p"




text \<open>
  Exactly one white-space character between the name and the \<open>=\<close>, and exactly one blank
  after the \<open>=\<close>.
\<close>

definition one_space_each_side :: "param_entry \<Rightarrow> bool" where
  "one_space_each_side p \<longleftrightarrow>
     spaces_before_equals p = 1 \<and> spaces_after_equals (param_line p) = Some 1"







text \<open>
  Example E1 of the specification: the four lines \<open>resource "x" "y" {\<close>, \<open>  a = 1\<close>,
  \<open>  bb = 2\<close> and \<open>}\<close>.
\<close>

definition e1_content :: string where
  "e1_content =
     join_lines
       [''resource '' @ [CHR 0x22] @ ''x'' @ [CHR 0x22] @ '' '' @ [CHR 0x22] @ ''y'' @ [CHR 0x22] @
        '' {'',
        ''  a = 1'',
        ''  bb = 2'',
        ''}'']"

section \<open>Properties\<close>

subsection \<open>Helper facts\<close>

lemma leading_spaces_tab:
  "tab_in_indentation line \<Longrightarrow> leading_spaces_from n line = - 1"
  by (induction line arbitrary: n) (auto simp: tab_in_indentation_def split: if_splits)

lemma st005_step_tab:
  "tab_in_indentation line \<Longrightarrow> snd (st005_step tf s line) = None"
  by (simp add: st005_step_def Let_def get_indentation_level_def leading_spaces_tab)

lemma st005_scan_line_numbers:
  "(k, m) \<in> set (st005_scan tf s n ls) \<Longrightarrow> n \<le> k \<and> k < n + length ls"
  by (induction ls arbitrary: s n) (fastforce split: option.splits)+

lemma st005_scan_skips_tab_lines:
  assumes "i < length ls" and "tab_in_indentation (ls ! i)"
  shows "(n + i, m) \<notin> set (st005_scan tf s n ls)"
  using assms
proof (induction ls arbitrary: s n i)
  case Nil
  then show ?case by simp
next
  case (Cons l ls)
  show ?case
  proof (cases i)
    case 0
    with Cons.prems have "snd (st005_step tf s l) = None"
      by (simp add: st005_step_tab)
    moreover have "(n, m) \<notin> set (st005_scan tf (fst (st005_step tf s l)) (Suc n) ls)"
      using st005_scan_line_numbers [of n m tf _ "Suc n" ls] by auto
    ultimately show ?thesis using 0 by simp
  next
    case (Suc j)
    with Cons.prems have "j < length ls" "tab_in_indentation (ls ! j)" by simp_all
    from Cons.IH [OF this]
    have "(Suc n + j, m) \<notin> set (st005_scan tf (fst (st005_step tf s l)) (Suc n) ls)" .
    then show ?thesis using Suc by (auto split: option.splits)
  qed
qed

text \<open>
  What \<open>st005_step\<close> hands to \<open>validate_line_indentation\<close>: the stripped line, its
  indentation, and as nesting level the sum of the two levels before the line.
\<close>

lemma st005_step_validates:
  assumes "strip line \<noteq> []"
    and "\<not> fst (check_heredoc_state line (in_heredoc s) (heredoc_terminator s))"
    and "\<not> startswith (strip line) ''#''"
    and "get_indentation_level line \<noteq> - 1"
  shows "snd (st005_step tf s line) =
         map_option (\<lambda>e. (get_indentation_level line, e))
           (validate_line_indentation (strip line) (get_indentation_level line) tf
              (brace_level s + bracket_level s)
              (max 0 (brace_level s + (count_char CHR ''{'' line - count_char CHR ''}'' line)))
              (max 0 (bracket_level s + (count_char CHR ''['' line - count_char CHR '']'' line))))"
  using assms by (simp add: st005_step_def Let_def split: option.splits)

lemma set_unique_errors: "set (unique_errors seen es) = set es - set seen"
  by (induction es arbitrary: seen) auto

lemma distinct_unique_errors: "distinct (unique_errors seen es)"
  by (induction es arbitrary: seen) (auto simp: set_unique_errors)

lemma sorted_unique_errors:
  "sorted (map fst es) \<Longrightarrow> sorted (map fst (unique_errors seen es))"
  by (induction es arbitrary: seen) (auto simp: set_unique_errors)

lemma set_keep_unprocessed: "set (keep_unprocessed seen es) \<subseteq> set es"
  by (induction es arbitrary: seen) auto

lemma fst_keep_unprocessed:
  "fst ` set (keep_unprocessed seen es) = fst ` set es - set seen"
  by (induction es arbitrary: seen) (auto simp: image_iff)

lemma distinct_keep_unprocessed: "distinct (map fst (keep_unprocessed seen es))"
  by (induction es arbitrary: seen) (auto simp: fst_keep_unprocessed)

lemma distinct_map_insort_key:
  "distinct (map f (insort_key g x xs)) \<longleftrightarrow> f x \<notin> set (map f xs) \<and> distinct (map f xs)"
  by (induction xs) (auto simp: set_insort_key)

lemma distinct_map_sort_key: "distinct (map f (sort_key g xs)) \<longleftrightarrow> distinct (map f xs)"
  by (induction xs) (auto simp: distinct_map_insort_key)

lemma startswith_blank:
  "startswith s '' '' \<longleftrightarrow> length (takeWhile (\<lambda>c. c = CHR '' '') s) \<ge> 1"
  by (cases s) (auto simp: startswith_def)

lemma startswith_two_blanks:
  "startswith s ''  '' \<longleftrightarrow> length (takeWhile (\<lambda>c. c = CHR '' '') s) \<ge> 2"
proof (cases s)
  case Nil
  then show ?thesis by (simp add: startswith_def)
next
  case (Cons a t)
  then show ?thesis by (cases t) (auto simp: startswith_def)
qed

subsection \<open>Heredoc spans\<close>

text \<open>
  The heredoc state machine of \<open>check_st005_indentation_level\<close>: a line of the body leaves
  the state as it is and is not reported; the terminator line ends the span; and the line
  that starts a span is not reported either, whatever its indentation.
\<close>

lemma st005_heredoc_body_suppressed:
  assumes "in_heredoc s" and "heredoc_terminator s = Some t" and "strip line \<noteq> t"
  shows "st005_step tf s line = (s, None)"
  using assms by (simp add: st005_step_def check_heredoc_state_def Let_def)

lemma st005_heredoc_terminator_ends:
  assumes "in_heredoc s" and "heredoc_terminator s = Some t" and "t \<noteq> []" and "strip line = t"
  shows "\<not> in_heredoc (fst (st005_step tf s line)) \<and>
         heredoc_terminator (fst (st005_step tf s line)) = None"
  using assms
  by (auto simp: st005_step_def check_heredoc_state_def Let_def split: option.splits)

lemma st005_heredoc_start_suppressed:
  assumes "\<not> in_heredoc s" and "heredoc_search line = Some t"
  shows "snd (st005_step tf s line) = None"
  using assms by (simp add: st005_step_def check_heredoc_state_def Let_def)

text \<open>
  Claim C2 (the starting line of a heredoc is not suppressed, the lines after it are, up to
  the terminator line, which is not). In \<open>check_st005_indentation_level\<close> the state is
  updated before the test \<open>if in_heredoc: continue\<close>, so the starting line itself is
  skipped: a line indented by three blanks is reported when it ends in \<open>1\<close> and is not
  reported when it ends in \<open><<EOT\<close>. The alignment rule tests the flag before it looks for
  the start: in a section it reports the starting line (here for the two blanks before its
  \<open>=\<close>) and not the body line.
\<close>

theorem st005_heredoc_start_line_suppressed:
  "check_st005_indentation_level ''main.tf'' (join_lines [''   x = <<EOT'', ''body'', ''EOT'']) = [] \<and>
   check_st005_indentation_level ''main.tf'' (join_lines [''   x = 1'']) =
     [(1, ''Indentation level incorrect. Current indentation: 3 spaces, Expected: 2 spaces'')] \<and>
   check_parameter_alignment_in_section
     [(''  x  = <<EOT'', 0), (''      body   =   1'', 1), (''EOT'', 2)] ''locals'' 1
     [''  x  = <<EOT'', ''      body   =   1'', ''EOT''] =
     Inr [(2, msg_spacing_incorrect ''locals'')]"
  by code_simp

subsection \<open>Expected indentation\<close>










subsection \<open>Lines indented with a tab\<close>

text \<open>
  Claim C10. A line with a tab among the blanks and tabs that start it is never reported by
  the indentation rule: no diagnostic of \<open>check_st005_indentation_level\<close> carries its line
  number, whatever the file, the line's content and the state the scan has reached.
\<close>

theorem tab_indented_line_not_reported:
  assumes "i < length (split_lines content)"
    and "tab_in_indentation (split_lines content ! i)"
  shows "(Suc i, message) \<notin> set (check_st005_indentation_level file_path content)"
  using st005_scan_skips_tab_lines [OF assms, of 1 message] 
  by (simp add: check_st005_indentation_level_def)

theorem tab_indented_line_not_reported_witness:
  "1 < length (split_lines (join_lines [''locals {'', [CHR 0x09] @ ''      x = 1'', ''}''])) \<and>
   tab_in_indentation (split_lines (join_lines [''locals {'', [CHR 0x09] @ ''      x = 1'', ''}'']) ! 1) \<and>
   (2, st005_message 6 2) \<notin>
     set (check_st005_indentation_level ''main.tf''
            (join_lines [''locals {'', [CHR 0x09] @ ''      x = 1'', ''}'']))"
proof -
  let ?c = "join_lines [''locals {'', [CHR 0x09] @ ''      x = 1'', ''}'']"
  have h1: "1 < length (split_lines ?c)" by code_simp
  have h2: "tab_in_indentation (split_lines ?c ! 1)" by code_simp
  have "(Suc 1, st005_message 6 2) \<notin> set (check_st005_indentation_level ''main.tf'' ?c)"
    by (rule tab_indented_line_not_reported [OF h1 h2])
  then have r: "(2, st005_message 6 2) \<notin> set (check_st005_indentation_level ''main.tf'' ?c)"
    unfolding Suc_1 .
  from h1 h2 r show ?thesis by blast
qed

subsection \<open>Order and uniqueness of the reported diagnostics\<close>

lemma st005_scan_sorted:
  "sorted (map fst (st005_scan tf s n ls)) \<and> distinct (map fst (st005_scan tf s n ls))"
proof (induction ls arbitrary: s n)
  case Nil
  then show ?case by simp
next
  case (Cons l ls)
  have later: "\<forall>e \<in> set (st005_scan tf (fst (st005_step tf s l)) (Suc n) ls). n < fst e"
    using st005_scan_line_numbers [of _ _ tf "fst (st005_step tf s l)" "Suc n" ls] by fastforce
  with Cons.IH [of "fst (st005_step tf s l)" "Suc n"] show ?case
    by (auto split: option.splits simp: less_imp_le)
qed

lemma keep_unprocessed_first:
  "e \<in> set (keep_unprocessed seen es) \<Longrightarrow>
   fst e \<notin> set seen \<and> List.find (\<lambda>x. fst x = fst e) es = Some e"
proof (induction es arbitrary: seen)
  case Nil
  then show ?case by simp
next
  case (Cons e0 es)
  show ?case
  proof (cases "fst e0 \<in> set seen")
    case True
    with Cons.prems have "e \<in> set (keep_unprocessed seen es)" by simp
    from Cons.IH [OF this] True show ?thesis by auto
  next
    case False
    show ?thesis
    proof (cases "e = e0")
      case True
      with False show ?thesis by simp
    next
      case ne: False
      with False Cons.prems have "e \<in> set (keep_unprocessed (fst e0 # seen) es)" by simp
      from Cons.IH [OF this] show ?thesis by auto
    qed
  qed
qed

text \<open>
  Claim C5 as stated (for every input file the reported list is the collected list
  deduplicated by the pair (line number, message) and sorted) fails for a \<open>.tfvars\<close> file.
  For the group of \<open>a =  1\<close> and \<open>bbb = 2\<close> the section collects two diagnostics for line 1,
  with different messages: the \<open>=\<close> is not aligned, and two blanks follow it. The second
  one is no duplicate of the first, yet it is not reported: \<open>_check_tfvars_parameter_alignment\<close>
  keeps a diagnostic only when its line number has none so far.
\<close>

theorem tfvars_second_message_counterexample:
  "check_group_alignment_tfvars [(1, ''a =  1''), (2, ''bbb = 2'')] 0 ''tfvars'' @
   check_parameter_spacing_tfvars ''a =  1'' 1 ''tfvars'' @
   check_parameter_spacing_tfvars ''bbb = 2'' 2 ''tfvars'' =
     [(1, msg_not_aligned ''tfvars'' 3 4), (1, msg_multiple_spaces_after ''tfvars'')] \<and>
   msg_not_aligned ''tfvars'' 3 4 \<noteq> msg_multiple_spaces_after ''tfvars'' \<and>
   report_tfvars_errors
     [[(1, msg_not_aligned ''tfvars'' 3 4), (1, msg_multiple_spaces_after ''tfvars'')]] =
     [(1, msg_not_aligned ''tfvars'' 3 4)] \<and>
   report_block_errors
     [(1, msg_not_aligned ''tfvars'' 3 4), (1, msg_multiple_spaces_after ''tfvars'')] =
     [(1, msg_not_aligned ''tfvars'' 3 4), (1, msg_multiple_spaces_after ''tfvars'')]"
  by code_simp

text \<open>
  Claim C5, amended. The list handed to the report callback is sorted by line number in
  ascending order, whatever errors the sections produced. In a file that is no \<open>.tfvars\<close>
  file it is the collected list deduplicated by the pair (line number, message): it holds
  no pair twice and holds exactly the pairs that were collected. In a \<open>.tfvars\<close> file it is
  the collected list deduplicated by the line number: it holds every line number that has
  a collected diagnostic exactly once, with the diagnostic that was collected first for
  that line. The indentation rule reports while it scans, at most once per line and in the
  order of the lines, so its list is sorted and free of duplicates as well.
\<close>

theorem reported_errors_sorted_unique:
  "sorted (map fst (report_block_errors all_errors)) \<and>
   distinct (report_block_errors all_errors) \<and>
   set (report_block_errors all_errors) = set all_errors \<and>
   sorted (map fst (report_tfvars_errors section_errors)) \<and>
   distinct (map fst (report_tfvars_errors section_errors)) \<and>
   set (map fst (report_tfvars_errors section_errors)) =
     set (map fst (concat section_errors)) \<and>
   list_all (\<lambda>e. List.find (\<lambda>x. fst x = fst e) (concat section_errors) = Some e)
     (report_tfvars_errors section_errors) \<and>
   sorted (map fst (check_st005_indentation_level file_path content)) \<and>
   distinct (map fst (check_st005_indentation_level file_path content)) \<and>
   distinct (check_st005_indentation_level file_path content)"
proof -
  have "sorted (map fst (sort_key fst all_errors))" by simp
  then have 1: "sorted (map fst (report_block_errors all_errors))"
    unfolding report_block_errors_def by (rule sorted_unique_errors)
  have 2: "distinct (report_block_errors all_errors)"
    unfolding report_block_errors_def by (rule distinct_unique_errors)
  have 3: "set (report_block_errors all_errors) = set all_errors"
    by (simp add: report_block_errors_def set_unique_errors)
  have 4: "sorted (map fst (report_tfvars_errors section_errors))"
    by (simp add: report_tfvars_errors_def)
  have 5: "distinct (map fst (report_tfvars_errors section_errors))"
    using distinct_keep_unprocessed [of "[]" "concat section_errors"]
    by (simp add: report_tfvars_errors_def distinct_map_sort_key)
  have 6: "set (map fst (report_tfvars_errors section_errors)) =
      set (map fst (concat section_errors))"
    using fst_keep_unprocessed [of "[]" "concat section_errors"]
    by (simp add: report_tfvars_errors_def)
  have 7: "list_all (\<lambda>e. List.find (\<lambda>x. fst x = fst e) (concat section_errors) = Some e)
      (report_tfvars_errors section_errors)"
    unfolding list_all_iff report_tfvars_errors_def
    using keep_unprocessed_first [of _ "[]" "concat section_errors"] by simp
  have 8: "sorted (map fst (check_st005_indentation_level file_path content))"
    by (simp add: check_st005_indentation_level_def st005_scan_sorted)
  have 9: "distinct (map fst (check_st005_indentation_level file_path content))"
    by (simp add: check_st005_indentation_level_def st005_scan_sorted)
  then have 10: "distinct (check_st005_indentation_level file_path content)"
    by (simp add: distinct_map)
  from 1 2 3 4 5 6 7 8 9 10 show ?thesis by blast
qed

subsection \<open>The space after the equals sign\<close>

text \<open>
  Claim C7. For a member line, \<open>_check_parameter_spacing\<close> reports nothing exactly when one
  blank follows the \<open>=\<close>; no blank yields one message, two or more blanks yield another, and
  the two messages differ for every block type. The check is applied to every member of
  every sub-group, whatever the alignment check says: its diagnostics are among the errors
  of the sub-group.
\<close>

theorem spacing_after_equals:
  "check_parameter_spacing line idx block_type block_start_line =
     (case spaces_after_equals line of
        None \<Rightarrow> []
      | Some k \<Rightarrow>
          if k = 0 then [(block_start_line + idx + 1, msg_one_space_after block_type)]
          else if k = 1 then []
          else [(block_start_line + idx + 1, msg_multiple_spaces_after block_type)]) \<and>
   msg_one_space_after block_type \<noteq> msg_multiple_spaces_after block_type \<and>
   (sub_group_errors indent_level block_type block_start_line block_lines sub_group = Inr errs \<and>
    m \<in> set sub_group \<longrightarrow>
      set (check_parameter_spacing (fst m) (snd m) block_type block_start_line) \<subseteq> set errs)"
proof (intro conjI impI)
  show "check_parameter_spacing line idx block_type block_start_line =
     (case spaces_after_equals line of
        None \<Rightarrow> []
      | Some k \<Rightarrow>
          if k = 0 then [(block_start_line + idx + 1, msg_one_space_after block_type)]
          else if k = 1 then []
          else [(block_start_line + idx + 1, msg_multiple_spaces_after block_type)])"
    by (auto simp: check_parameter_spacing_def check_equals_after_spacing_def
        spaces_after_equals_def startswith_blank startswith_two_blanks Let_def
        split: option.splits)
  show "msg_one_space_after block_type \<noteq> msg_multiple_spaces_after block_type"
    by (simp add: msg_multiple_spaces_after_def)
  assume "sub_group_errors indent_level block_type block_start_line block_lines sub_group
            = Inr errs \<and> m \<in> set sub_group"
  then show "set (check_parameter_spacing (fst m) (snd m) block_type block_start_line)
      \<subseteq> set errs"
    by (auto simp: sub_group_errors_def split: sum.splits)
qed

theorem spacing_after_equals_witness:
  "sub_group_errors 1 ''locals'' 1 [''  a =1'', ''  b =  2''] [(''  a =1'', 0), (''  b =  2'', 1)] =
     Inr [(2, msg_one_space_after ''locals''), (3, msg_multiple_spaces_after ''locals'')] \<and>
   set (check_parameter_spacing ''  b =  2'' 1 ''locals'' 1) \<subseteq>
     set [(2, msg_one_space_after ''locals''), (3, msg_multiple_spaces_after ''locals'')]"
proof -
  let ?sg = "[(''  a =1'', 0::nat), (''  b =  2'', 1)]"
  let ?errs = "[(2::nat, msg_one_space_after ''locals''), (3, msg_multiple_spaces_after ''locals'')]"
  have h: "sub_group_errors 1 ''locals'' 1 [''  a =1'', ''  b =  2''] ?sg = Inr ?errs"
    by code_simp
  have m: "(''  b =  2'', 1) \<in> set ?sg" by simp
  from spacing_after_equals [where indent_level = 1 and block_type = "''locals''"
      and block_start_line = 1 and block_lines = "[''  a =1'', ''  b =  2'']"
      and sub_group = ?sg and errs = ?errs and m = "(''  b =  2'', 1)"] h m
  have "set (check_parameter_spacing (fst (''  b =  2'', 1::nat)) (snd (''  b =  2'', 1::nat))
          ''locals'' 1) \<subseteq> set ?errs"
    by blast
  with h show ?thesis by simp
qed

text \<open>
  The same two failures in a \<open>.tfvars\<close> file, where \<open>_check_parameter_spacing_tfvars\<close> has a
  message of its own for the missing blank.
\<close>

lemma tfvars_messages_differ:
  "msg_at_least_one_space_after bt \<noteq> msg_multiple_spaces_after bt"
proof
  assume "msg_at_least_one_space_after bt = msg_multiple_spaces_after bt"
  then have "length (msg_at_least_one_space_after bt) = length (msg_multiple_spaces_after bt)"
    by (rule arg_cong)
  then show False
    unfolding msg_at_least_one_space_after_def msg_multiple_spaces_after_def
        msg_one_space_after_def length_append by simp
qed

lemma spacing_after_equals_tfvars:
  assumes "spaces_after_equals line = Some k"
  shows "(k = 0 \<longrightarrow> (n, msg_at_least_one_space_after bt)
            \<in> set (check_parameter_spacing_tfvars line n bt)) \<and>
         (2 \<le> k \<longrightarrow> (n, msg_multiple_spaces_after bt)
            \<in> set (check_parameter_spacing_tfvars line n bt))"
proof -
  from assms obtain pos where pos: "str_find CHR ''='' line = Some pos"
    and k: "k = length (takeWhile (\<lambda>c. c = CHR '' '') (drop (Suc pos) line))"
    by (auto simp: spaces_after_equals_def split: option.splits)
  show ?thesis
    unfolding check_parameter_spacing_tfvars_def pos option.case Let_def
    using k by (simp add: startswith_blank startswith_two_blanks)
qed


subsection \<open>Alignment inside a group\<close>

lemma should_skip_reportable:
  "relative_line_idx p \<le> length block_lines \<Longrightarrow>
   should_skip_alignment_check (param_line p) (param_name p) (relative_line_idx p) block_lines =
     Inr (\<not> reportable block_lines p)"
  by (auto simp: should_skip_alignment_check_def has_st005_issue_def has_st004_issue_def
      has_st008_issue_def meta_parameters_def reportable_def spec_eligible_def
      below_st005_mention_def split: sum.splits bool.splits)





lemma spacing_empty_iff:
  "check_parameter_spacing line idx bt start = [] \<longleftrightarrow>
   spaces_after_equals line = None \<or> spaces_after_equals line = Some 1"
  by (auto simp: check_parameter_spacing_def check_equals_after_spacing_def
      spaces_after_equals_def startswith_blank startswith_two_blanks Let_def split: option.splits)

lemma param_entry_of_line:
  "param_entry_of m = Some p \<Longrightarrow>
   param_line p = fst m \<and> relative_line_idx p = snd m \<and>
   str_find CHR ''='' (fst m) = Some (equals_pos p)"
  by (auto simp: param_entry_of_def Let_def split: option.splits if_splits)

lemma build_param_data_member:
  "p \<in> set (build_param_data g) \<Longrightarrow> str_find CHR ''='' (param_line p) = Some (equals_pos p)"
proof -
  assume "p \<in> set (build_param_data g)"
  then obtain m where "param_entry_of m = Some p"
    by (auto simp: build_param_data_def List.map_filter_def)
  from param_entry_of_line [OF this] show ?thesis by simp
qed




subsection \<open>A group with a single member\<close>

text \<open>
  Claim C6 as stated (a group with exactly one eligible member: the member passes exactly
  when one space precedes and one follows the \<open>=\<close>, and no expected-column check is applied)
  fails, whether "one eligible member" counts the members that may be reported or the
  entries of the group. In the group of \<open>count = 1\<close> and \<open>name = 2\<close> the only eligible member
  is \<open>name\<close>, whose \<open>=\<close> has one space on each side, yet it is reported by the
  expected-column check, because \<open>count\<close> still counts as a second entry and as the longest
  name. In the group of the single line \<open>count   = 1\<close> the member has three blanks before
  the \<open>=\<close> and passes, because a meta-parameter is excluded from reporting. And in the
  group of the single line \<open>    name   = 1\<close> below the comment line \<open>    # ST.005\<close> the
  member is eligible (no tab, even indentation, no meta-parameter), has three blanks before
  the \<open>=\<close> and passes, because a member indented by 4 right below a line that contains
  \<open>ST.005\<close> is excluded from reporting as well.
\<close>

theorem single_eligible_member_counterexample:
  "filter spec_eligible (build_param_data [(''  count = 1'', 0), (''  name = 2'', 1)]) =
     [\<lparr>param_name = ''name'', param_line = ''  name = 2'', relative_line_idx = 1,
       equals_pos = 7, is_nested_block = False\<rparr>] \<and>
   one_space_each_side
     \<lparr>param_name = ''name'', param_line = ''  name = 2'', relative_line_idx = 1,
       equals_pos = 7, is_nested_block = False\<rparr> \<and>
   check_group_alignment [(''  count = 1'', 0), (''  name = 2'', 1)] 1 ''locals'' 1
     [''  count = 1'', ''  name = 2''] = Inr [(3, msg_not_aligned ''locals'' 2 8)] \<and>
   build_param_data [(''  count   = 1'', 0)] =
     [\<lparr>param_name = ''count'', param_line = ''  count   = 1'', relative_line_idx = 0,
       equals_pos = 10, is_nested_block = False\<rparr>] \<and>
   spaces_before_equals
     \<lparr>param_name = ''count'', param_line = ''  count   = 1'', relative_line_idx = 0,
       equals_pos = 10, is_nested_block = False\<rparr> = 3 \<and>
   check_group_alignment [(''  count   = 1'', 0)] 1 ''locals'' 1 [''  count   = 1''] = Inr [] \<and>
   check_parameter_spacing ''  count   = 1'' 0 ''locals'' 1 = [] \<and>
   build_param_data [(''    name   = 1'', 1)] =
     [\<lparr>param_name = ''name'', param_line = ''    name   = 1'', relative_line_idx = 1,
       equals_pos = 11, is_nested_block = False\<rparr>] \<and>
   spec_eligible
     \<lparr>param_name = ''name'', param_line = ''    name   = 1'', relative_line_idx = 1,
       equals_pos = 11, is_nested_block = False\<rparr> \<and>
   spaces_before_equals
     \<lparr>param_name = ''name'', param_line = ''    name   = 1'', relative_line_idx = 1,
       equals_pos = 11, is_nested_block = False\<rparr> = 3 \<and>
   check_group_alignment [(''    name   = 1'', 1)] 2 ''locals'' 1
     [''    # ST.005'', ''    name   = 1''] = Inr [] \<and>
   check_parameter_spacing ''    name   = 1'' 1 ''locals'' 1 = []"
  by code_simp

text \<open>
  Claim C6, amended. For a group whose \<open>param_data\<close> has exactly one entry, with its line
  index inside the block, that entry having no tab, an even indentation and a name that is
  no meta-parameter, and not being indented by 4 right below a line that contains
  \<open>ST.005\<close>: \<open>_check_group_alignment\<close> reports at most the message about the space before
  \<open>=\<close>, whatever the indentation level, so no expected-column check is applied; and the
  member passes both checks (alignment and space after \<open>=\<close>) exactly when one white-space
  character precedes the \<open>=\<close> and one blank follows it.
\<close>

theorem single_member_spacing:
  assumes "build_param_data group_lines = [p]"
    and "relative_line_idx p \<le> length block_lines"
    and "CHR 0x09 \<notin> set (param_line p)"
    and "actual_indent (param_line p) mod 2 = 0"
    and "param_name p \<notin> set [''count'', ''for_each'', ''provider'', ''depends_on'', ''lifecycle'']"
    and "\<not> (actual_indent (param_line p) = 4 \<and> 0 < relative_line_idx p \<and>
            contains (block_lines ! (relative_line_idx p - 1)) ''ST.005'')"
  shows "check_group_alignment group_lines indent_level block_type block_start_line block_lines =
           Inr (if spaces_before_equals p = 1 then []
                else [(block_start_line + relative_line_idx p + 1,
                       msg_spacing_incorrect block_type)]) \<and>
         (check_group_alignment group_lines indent_level block_type block_start_line block_lines
            = Inr [] \<and>
          check_parameter_spacing (param_line p) (relative_line_idx p) block_type
            block_start_line = [] \<longleftrightarrow>
          one_space_each_side p)"
proof -
  from assms(3-6) have r: "reportable block_lines p"
    by (simp add: reportable_def spec_eligible_def below_st005_mention_def)
  have a: "check_group_alignment group_lines indent_level block_type block_start_line block_lines =
           Inr (if spaces_before_equals p = 1 then []
                else [(block_start_line + relative_line_idx p + 1,
                       msg_spacing_incorrect block_type)])"
    using assms(1) r
    by (simp add: check_group_alignment_def single_param_errors_def
        should_skip_reportable [OF assms(2)])
  have "p \<in> set (build_param_data group_lines)" using assms(1) by simp
  then have "spaces_after_equals (param_line p) \<noteq> None"
    by (auto simp: spaces_after_equals_def dest: build_param_data_member)
  then show ?thesis
    using a by (auto simp: one_space_each_side_def spacing_empty_iff)
qed

theorem single_member_spacing_witness:
  "check_group_alignment [(''  name = 1'', 0)] 1 ''locals'' 1 [''  name = 1''] = Inr [] \<and>
   check_parameter_spacing ''  name = 1'' 0 ''locals'' 1 = [] \<and>
   check_group_alignment [(''  name   = 1'', 0)] 1 ''locals'' 1 [''  name   = 1''] =
     Inr [(2, msg_spacing_incorrect ''locals'')]"
proof -
  let ?p = "\<lparr>param_name = ''name'', param_line = ''  name = 1'', relative_line_idx = 0,
             equals_pos = 7, is_nested_block = False\<rparr>"
  let ?q = "\<lparr>param_name = ''name'', param_line = ''  name   = 1'', relative_line_idx = 0,
             equals_pos = 9, is_nested_block = False\<rparr>"
  have h1: "build_param_data [(''  name = 1'', 0)] = [?p]" by code_simp
  have h2: "relative_line_idx ?p \<le> length [''  name = 1'']" by code_simp
  have h3: "CHR 0x09 \<notin> set (param_line ?p)" by code_simp
  have h4: "actual_indent (param_line ?p) mod 2 = 0" by code_simp
  have h5: "param_name ?p \<notin>
      set [''count'', ''for_each'', ''provider'', ''depends_on'', ''lifecycle'']" by code_simp
  have h6: "\<not> (actual_indent (param_line ?p) = 4 \<and> 0 < relative_line_idx ?p \<and>
      contains ([''  name = 1''] ! (relative_line_idx ?p - 1)) ''ST.005'')" by code_simp
  have h7: "one_space_each_side ?p" by code_simp
  from single_member_spacing [OF h1 h2 h3 h4 h5 h6, of 1 "''locals''" 1] h7
  have "check_group_alignment [(''  name = 1'', 0)] 1 ''locals'' 1 [''  name = 1''] = Inr [] \<and>
        check_parameter_spacing (param_line ?p) (relative_line_idx ?p) ''locals'' 1 = []"
    by blast
  then have a: "check_group_alignment [(''  name = 1'', 0)] 1 ''locals'' 1 [''  name = 1''] =
        Inr [] \<and> check_parameter_spacing ''  name = 1'' 0 ''locals'' 1 = []"
    by simp
  have k1: "build_param_data [(''  name   = 1'', 0)] = [?q]" by code_simp
  have k2: "relative_line_idx ?q \<le> length [''  name   = 1'']" by code_simp
  have k3: "CHR 0x09 \<notin> set (param_line ?q)" by code_simp
  have k4: "actual_indent (param_line ?q) mod 2 = 0" by code_simp
  have k5: "param_name ?q \<notin>
      set [''count'', ''for_each'', ''provider'', ''depends_on'', ''lifecycle'']" by code_simp
  have k6: "\<not> (actual_indent (param_line ?q) = 4 \<and> 0 < relative_line_idx ?q \<and>
      contains ([''  name   = 1''] ! (relative_line_idx ?q - 1)) ''ST.005'')" by code_simp
  have k7: "spaces_before_equals ?q = 3" by code_simp
  from single_member_spacing [OF k1 k2 k3 k4 k5 k6, of 1 "''locals''" 1]
  have "check_group_alignment [(''  name   = 1'', 0)] 1 ''locals'' 1 [''  name   = 1''] =
      Inr (if spaces_before_equals ?q = 1 then []
           else [(1 + relative_line_idx ?q + 1, msg_spacing_incorrect ''locals'')])"
    by blast
  then have b: "check_group_alignment [(''  name   = 1'', 0)] 1 ''locals'' 1
      [''  name   = 1''] = Inr [(2, msg_spacing_incorrect ''locals'')]"
    unfolding k7 by simp
  from a b show ?thesis by blast
qed

subsection \<open>Example E1\<close>

text \<open>
  Claim C8 as stated (both body lines of E1 are flagged) fails. \<open>_extract_code_blocks\<close>
  finds one block in E1, of type \<open>resource.x.y\<close>, starting at line 1, with the body lines
  \<open>  a = 1\<close> and \<open>  bb = 2\<close> (file lines 2 and 3); the two lines follow each other at one
  indentation and so form one section. The only line number reported for it is 2: the \<open>=\<close>
  of \<open>  bb = 2\<close> already stands at the expected offset.
\<close>

theorem e1_second_line_counterexample:
  "extract_code_blocks (remove_comments_for_parsing e1_content) =
     [(''resource.x.y'', 1, [''  a = 1'', ''  bb = 2''])] \<and>
   (case check_parameter_alignment_in_section [(''  a = 1'', 0), (''  bb = 2'', 1)]
           ''resource.x.y'' 1 [''  a = 1'', ''  bb = 2''] of
      Inl e \<Rightarrow> []
    | Inr errs \<Rightarrow> map fst (report_block_errors errs)) = [2]"
  by code_simp

text \<open>
  Claim C8, amended. On E1 the expected offset of \<open>=\<close> is 2+2+0+1 = 5 counted from 0, that
  is column 6; the checker flags the line \<open>  a = 1\<close> (2 spaces wanted before \<open>=\<close>) and only
  that line, and reports nothing once it is rewritten as \<open>  a  = 1\<close>.
\<close>

theorem e1_alignment:
  "extract_code_blocks (remove_comments_for_parsing e1_content) =
     [(''resource.x.y'', 1, [''  a = 1'', ''  bb = 2''])] \<and>
   expected_equals_location (build_param_data [(''  a = 1'', 0), (''  bb = 2'', 1)]) 1 = 5 \<and>
   check_parameter_alignment_in_section [(''  a = 1'', 0), (''  bb = 2'', 1)]
     ''resource.x.y'' 1 [''  a = 1'', ''  bb = 2''] =
     Inr [(2, msg_not_aligned ''resource.x.y'' 2 5)] \<and>
   msg_not_aligned ''resource.x.y'' 2 5 =
     ''Parameter assignment equals sign not aligned in resource.x.y. Expected 2 spaces '' @
     ''between parameter name and '' @ [CHR 0x27, CHR ''='', CHR 0x27] @
     '', equals sign should be at column 6'' \<and>
   report_block_errors [(2, msg_not_aligned ''resource.x.y'' 2 5)] =
     [(2, msg_not_aligned ''resource.x.y'' 2 5)] \<and>
   check_parameter_alignment_in_section [(''  a  = 1'', 0), (''  bb = 2'', 1)]
     ''resource.x.y'' 1 [''  a  = 1'', ''  bb = 2''] = Inr []"
  by code_simp

subsection \<open>Alignment inside a group of a \<open>.tfvars\<close> file\<close>






























end
